theory Spec2Isabelle
  imports Complex_Main "HOL-Library.Stream"
begin

section \<open>Night Sky Perceptions: the object catalog\<close>

text \<open>
  The program is \<^verbatim>\<open>src/Main.py\<close>. Python floats are modelled as \<^typ>\<open>real\<close>
  (rounding is not modelled), Python ints as \<^typ>\<open>int\<close>. Every call of the
  \<^verbatim>\<open>random\<close> module becomes an explicit argument: the value that was drawn.
\<close>

definition WIDTH :: real where
  "WIDTH = 1000"

definition HEIGHT :: real where
  "HEIGHT = 700"

text \<open>The keys of \<^verbatim>\<open>OBJECT_TYPES\<close>, in the order of the dict literal.\<close>

datatype otype = Plane | Helicopter | Satellite | Meteor | Rare

type_synonym color = "int \<times> int \<times> int"

fun OBJECT_TYPES_color :: "otype \<Rightarrow> color" where
  "OBJECT_TYPES_color Plane = (255, 0, 0)"
| "OBJECT_TYPES_color Helicopter = (0, 0, 255)"
| "OBJECT_TYPES_color Satellite = (255, 255, 255)"
| "OBJECT_TYPES_color Meteor = (255, 255, 150)"
| "OBJECT_TYPES_color Rare = (150, 0, 150)"

fun OBJECT_TYPES_prob :: "otype \<Rightarrow> int" where
  "OBJECT_TYPES_prob Plane = 30"
| "OBJECT_TYPES_prob Helicopter = 20"
| "OBJECT_TYPES_prob Satellite = 20"
| "OBJECT_TYPES_prob Meteor = 20"
| "OBJECT_TYPES_prob Rare = 10"

text \<open>The entries of \<^verbatim>\<open>MOVEMENT_TYPES\<close>.\<close>

datatype movement_type = normal | hover_zip | rare | orbit | shooting_star

datatype view_mode = PLAN | GROUND

datatype direction = EAST | WEST

section \<open>SkyObject\<close>

record SkyObject =
  id_obj :: int
  otype :: otype
  base_color :: color
  x :: real
  y :: real
  z :: real
  trail :: "(real \<times> real) list"
  speed :: real
  movement :: movement_type
  vx :: real
  vy :: real

text \<open>
  The six random draws of \<^verbatim>\<open>SkyObject.__init__\<close>, in source order:
  \<^verbatim>\<open>uniform(0, WIDTH)\<close>, \<^verbatim>\<open>uniform(0, HEIGHT / 2)\<close>, \<^verbatim>\<open>uniform(0, 100)\<close>,
  \<^verbatim>\<open>uniform(1, 3)\<close>, \<^verbatim>\<open>choices(MOVEMENT_TYPES, MOVEMENT_DIST)[0]\<close> and
  \<^verbatim>\<open>uniform(0, 2 * math.pi)\<close>.
\<close>

record init_draws =
  draw_x :: real
  draw_y :: real
  draw_z :: real
  draw_speed :: real
  draw_movement :: movement_type
  draw_angle :: real

definition SkyObject_init :: "int \<Rightarrow> otype \<Rightarrow> init_draws \<Rightarrow> SkyObject" where
  "SkyObject_init oid ty r =
     \<lparr> id_obj = oid,
       otype = ty,
       base_color = OBJECT_TYPES_color ty,
       x = draw_x r,
       y = draw_y r,
       z = draw_z r,
       trail = [],
       speed = draw_speed r,
       movement = draw_movement r,
       vx = cos (draw_angle r) * draw_speed r,
       vy = sin (draw_angle r) * draw_speed r \<rparr>"

text \<open>
  \<^verbatim>\<open>SkyObject.update\<close>. The global \<^verbatim>\<open>SPEED_MULTIPLIER\<close> is the argument \<open>sm\<close>, the
  draw \<^verbatim>\<open>random.uniform(-0.2, 0.2)\<close> is the argument \<open>dz\<close>. The trail receives the
  position before the wraparound checks; \<^verbatim>\<open>pop(0)\<close> removes the oldest entry.
  The four wraparound tests run one after the other on the current value.
\<close>

definition update :: "real \<Rightarrow> real \<Rightarrow> SkyObject \<Rightarrow> SkyObject" where
  "update sm dz self =
     (let x1 = x self + vx self * sm;
          y1 = y self + vy self * sm;
          z1 = max 0 (min 100 (z self + dz));
          trail1 = trail self @ [(x1, y1)];
          trail2 = (if length trail1 > 10 then tl trail1 else trail1);
          x2 = (if x1 < 0 then WIDTH else x1);
          x3 = (if x2 > WIDTH then 0 else x2);
          y2 = (if y1 < 0 then HEIGHT else y1);
          y3 = (if y2 > HEIGHT then 0 else y2)
      in self\<lparr> x := x3, y := y3, z := z1, trail := trail2 \<rparr>)"

text \<open>A finite sequence of \<^verbatim>\<open>update\<close> calls, each with its own speed multiplier and draw.\<close>

fun updates :: "SkyObject \<Rightarrow> (real \<times> real) list \<Rightarrow> SkyObject" where
  "updates self [] = self"
| "updates self (c # cs) = updates (update (fst c) (snd c) self) cs"

section \<open>Drawing\<close>

text \<open>
  Python's \<^verbatim>\<open>int(v)\<close> on a float truncates toward zero.
\<close>

definition py_int :: "real \<Rightarrow> int" where
  "py_int v = (if 0 \<le> v then \<lfloor>v\<rfloor> else \<lceil>v\<rceil>)"

text \<open>
  The calls that \<^verbatim>\<open>draw\<close> issues on the surface, as values:
  \<^verbatim>\<open>pygame.draw.circle(surface, color, center, radius)\<close>,
  \<^verbatim>\<open>pygame.draw.lines(surface, color, closed, points, width)\<close>, and the label of
  \<^verbatim>\<open>_draw_id\<close>: the rendering of \<^verbatim>\<open>str(self.id)\<close> blitted at a position.
\<close>

datatype draw_call =
    Circle color "int \<times> int" int
  | Lines color bool "(real \<times> real) list" int
  | Blit_label int "real \<times> real"

text \<open>Lines 59 and 60 of the source: the depth factor and the color of the object.\<close>

definition display_channel :: "real \<Rightarrow> int \<Rightarrow> int" where
  "display_channel factor c = min 255 (py_int (real_of_int c + factor * 80))"

definition display_color :: "SkyObject \<Rightarrow> color" where
  "display_color self =
     (let factor = 1 - (z self / 100)
      in case base_color self of
           (r, g, b) \<Rightarrow> (display_channel factor r, display_channel factor g, display_channel factor b))"

text \<open>Lines 66 and 67 of the source: the position of the object in the ground view.\<close>

definition ground_x :: "direction \<Rightarrow> SkyObject \<Rightarrow> real" where
  "ground_x dir self = (if dir = EAST then x self else WIDTH - x self)"

definition ground_y :: "SkyObject \<Rightarrow> real" where
  "ground_y self = HEIGHT - (z self * 5)"

definition draw_id :: "SkyObject \<Rightarrow> real \<Rightarrow> real \<Rightarrow> draw_call list" where
  "draw_id self px py = [Blit_label (id_obj self) (px + 8, py - 8)]"

text \<open>
  \<^verbatim>\<open>SkyObject.draw\<close>, with the globals \<^verbatim>\<open>VIEW_MODE\<close> and \<^verbatim>\<open>DIRECTION\<close> as
  arguments. The result is the list of calls made on the surface, in order. The
  method assigns no attribute of \<^verbatim>\<open>self\<close>, so the model returns no object.
\<close>

definition draw :: "view_mode \<Rightarrow> direction \<Rightarrow> SkyObject \<Rightarrow> draw_call list" where
  "draw vm dir self =
     (let color = display_color self
      in if vm = PLAN
         then [Circle color (py_int (x self), py_int (y self)) 5,
               Lines color False (trail self) 1]
              @ draw_id self (x self) (y self)
         else (let gx = ground_x dir self;
                   gy = ground_y self
               in [Circle color (py_int gx, py_int gy) 5] @ draw_id self gx gy))"

text \<open>
  The body of the loop \<^verbatim>\<open>for obj in objects: obj.update(); obj.draw(screen)\<close> of
  \<^verbatim>\<open>main\<close>, for one object: the object after the body, and the calls it made.
\<close>

definition update_and_draw ::
  "real \<Rightarrow> view_mode \<Rightarrow> direction \<Rightarrow> real \<Rightarrow> SkyObject \<Rightarrow> SkyObject \<times> draw_call list" where
  "update_and_draw sm vm dir dz self =
     (let self' = update sm dz self in (self', draw vm dir self'))"

text \<open>
  The polyline primitive \<^verbatim>\<open>pygame.draw.lines\<close> is not code of this repository. Its
  precondition, as the library documents it, is that the point sequence has two points
  or more; a call with fewer raises \<^verbatim>\<open>ValueError\<close>.
\<close>

fun lines_precondition :: "draw_call \<Rightarrow> bool" where
  "lines_precondition (Lines c cl pts w) = (2 \<le> length pts)"
| "lines_precondition (Circle c p r) = True"
| "lines_precondition (Blit_label n p) = True"

section \<open>The controller\<close>

definition SLIDER_Y :: int where
  "SLIDER_Y = 700 - 80"

definition SLIDER_X :: int where
  "SLIDER_X = 200"

definition SLIDER_W :: int where
  "SLIDER_W = 600"

definition SLIDER_H :: int where
  "SLIDER_H = 20"

definition BUTTON_HEIGHT :: int where
  "BUTTON_HEIGHT = 50"

text \<open>
  \<^verbatim>\<open>pygame.Rect(left, top, width, height)\<close> and its \<^verbatim>\<open>collidepoint\<close>: a point on
  the right or bottom edge is outside the rectangle.
\<close>

type_synonym rect = "int \<times> int \<times> int \<times> int"

fun collidepoint :: "rect \<Rightarrow> int \<Rightarrow> int \<Rightarrow> bool" where
  "collidepoint (rleft, rtop, rw, rh) px py =
     (rleft \<le> px \<and> px < rleft + rw \<and> rtop \<le> py \<and> py < rtop + rh)"

definition view_btn :: rect where
  "view_btn = (20, 700 - BUTTON_HEIGHT - 20, 150, BUTTON_HEIGHT)"

definition dir_btn :: rect where
  "dir_btn = (20, 700 - 2 * BUTTON_HEIGHT - 40, 150, BUTTON_HEIGHT)"

text \<open>
  The globals of \<^verbatim>\<open>main\<close> and its two local flags. Events other than the four that
  \<^verbatim>\<open>main\<close> tests are \<open>OTHER\<close>.
\<close>

record controller =
  VIEW_MODE :: view_mode
  DIRECTION :: direction
  SPEED_MULTIPLIER :: real
  dragging_slider :: bool
  running :: bool

datatype event =
    QUIT
  | MOUSEBUTTONDOWN int int
  | MOUSEBUTTONUP
  | MOUSEMOTION int int
  | OTHER

definition initial_controller :: controller where
  "initial_controller =
     \<lparr> VIEW_MODE = PLAN, DIRECTION = EAST, SPEED_MULTIPLIER = 1.0,
       dragging_slider = False, running = True \<rparr>"

text \<open>The body of \<^verbatim>\<open>for event in pygame.event.get()\<close>, lines 124 to 141.\<close>

fun handle_event :: "controller \<Rightarrow> event \<Rightarrow> controller" where
  "handle_event st QUIT = st\<lparr> running := False \<rparr>"
| "handle_event st (MOUSEBUTTONDOWN mx my) =
     (if collidepoint view_btn mx my
      then st\<lparr> VIEW_MODE := (if VIEW_MODE st = PLAN then GROUND else PLAN) \<rparr>
      else if collidepoint dir_btn mx my
      then st\<lparr> DIRECTION := (if DIRECTION st = EAST then WEST else EAST) \<rparr>
      else if SLIDER_X \<le> mx \<and> mx \<le> SLIDER_X + SLIDER_W \<and>
              SLIDER_Y - 10 \<le> my \<and> my \<le> SLIDER_Y + SLIDER_H + 10
      then st\<lparr> dragging_slider := True \<rparr>
      else st)"
| "handle_event st MOUSEBUTTONUP = st\<lparr> dragging_slider := False \<rparr>"
| "handle_event st (MOUSEMOTION mx my) =
     (if dragging_slider st
      then (let ratio = real_of_int (mx - SLIDER_X) / real_of_int SLIDER_W;
                ratio' = max 0 (min 1 ratio)
            in st\<lparr> SPEED_MULTIPLIER := 0.5 + ratio' * 2.5 \<rparr>)
      else st)"
| "handle_event st OTHER = st"

text \<open>
  The clamp of the specification's formula for the slider, written from its words:
  a value below the lower bound becomes the lower bound, a value above the upper bound
  becomes the upper bound, any other value stays.
\<close>

definition spec_clamp :: "real \<Rightarrow> real \<Rightarrow> real \<Rightarrow> real" where
  "spec_clamp v lo hi = (if v < lo then lo else if hi < v then hi else v)"

section \<open>The spawner\<close>

text \<open>
  \<^verbatim>\<open>spawn_objects\<close>, with \<^verbatim>\<open>MAX_OBJECTS\<close> and \<^verbatim>\<open>MAX_PER_TYPE\<close> as arguments. Each
  pass of the \<^verbatim>\<open>while\<close> loop consumes one element of the stream \<open>rs\<close>: the type that
  \<^verbatim>\<open>random.choices\<close> returned, and the draws that \<^verbatim>\<open>SkyObject.__init__\<close> makes
  if the pass constructs an object. All weights are positive, so every type can be
  returned. A loop that never exits is the value \<open>None\<close>; the source has no
  \<^verbatim>\<open>raise\<close>, so there is no error value.
\<close>

type_synonym spawn_draw = "otype \<times> init_draws"

partial_function (option) spawn_loop ::
  "int \<Rightarrow> int \<Rightarrow> SkyObject list \<Rightarrow> int \<Rightarrow> (otype \<Rightarrow> int) \<Rightarrow> spawn_draw stream
     \<Rightarrow> SkyObject list option" where
  "spawn_loop max_objects max_per_type objs oid counts rs =
     (if int (length objs) < max_objects
      then (if counts (fst (shd rs)) < max_per_type
            then spawn_loop max_objects max_per_type
                   (objs @ [SkyObject_init oid (fst (shd rs)) (snd (shd rs))])
                   (oid + 1)
                   (counts (fst (shd rs) := counts (fst (shd rs)) + 1))
                   (stl rs)
            else spawn_loop max_objects max_per_type objs oid counts (stl rs))
      else Some objs)"

definition spawn_objects :: "int \<Rightarrow> int \<Rightarrow> spawn_draw stream \<Rightarrow> SkyObject list option" where
  "spawn_objects max_objects max_per_type rs =
     spawn_loop max_objects max_per_type [] 1 (\<lambda>k. 0) rs"


definition MAX_PER_TYPE :: int where
  "MAX_PER_TYPE = 4"

text \<open>How many objects of a list have a given type.\<close>

definition count_type :: "otype \<Rightarrow> SkyObject list \<Rightarrow> nat" where
  "count_type ty objs = length (filter (\<lambda>ob. otype ob = ty) objs)"

text \<open>
  A stream of draws in which every type keeps being drawn. With positive weights the
  draws of \<^verbatim>\<open>random.choices\<close> have this property with probability one.
\<close>

definition recurring :: "spawn_draw stream \<Rightarrow> bool" where
  "recurring rs = (\<forall>ty n. \<exists>m. n \<le> m \<and> fst (rs !! m) = ty)"

section \<open>Vocabulary of the properties\<close>

text \<open>Channel-wise comparison of two colors, and the range of a color channel.\<close>

fun channels_ge :: "color \<Rightarrow> color \<Rightarrow> bool" where
  "channels_ge (r1, g1, b1) (r2, g2, b2) = (r2 \<le> r1 \<and> g2 \<le> g1 \<and> b2 \<le> b1)"

fun channels_valid :: "color \<Rightarrow> bool" where
  "channels_valid (r, g, b) = (0 \<le> r \<and> r \<le> 255 \<and> 0 \<le> g \<and> g \<le> 255 \<and> 0 \<le> b \<and> b \<le> 255)"

text \<open>
  The invariant of the \<^verbatim>\<open>while\<close> loop of \<^verbatim>\<open>spawn_objects\<close>: the next id is one more
  than the number of objects, the ids so far are \<open>1, 2, \<dots>\<close> in list order, the dict
  \<^verbatim>\<open>counts\<close> holds the number of objects of each type, and a type that occurs at all
  occurs at most \<^verbatim>\<open>MAX_PER_TYPE\<close> times.
\<close>

definition spawn_inv :: "int \<Rightarrow> SkyObject list \<Rightarrow> int \<Rightarrow> (otype \<Rightarrow> int) \<Rightarrow> bool" where
  "spawn_inv max_per_type objs oid counts =
     (oid = int (length objs) + 1
      \<and> map id_obj objs = [1 .. int (length objs)]
      \<and> (\<forall>ty. counts ty = int (count_type ty objs))
      \<and> (\<forall>ty. 0 < count_type ty objs \<longrightarrow> int (count_type ty objs) \<le> max_per_type))"

section \<open>Concrete inputs\<close>

text \<open>Draws of a constructor call: heading \<open>0\<close> (east) and heading \<open>\<pi>/2\<close>.\<close>

definition draws_east :: init_draws where
  "draws_east = \<lparr> draw_x = 10, draw_y = 20, draw_z = 50, draw_speed = 2,
                  draw_movement = normal, draw_angle = 0 \<rparr>"

definition draws_south :: init_draws where
  "draws_south = \<lparr> draw_x = 10, draw_y = 20, draw_z = 50, draw_speed = 2,
                   draw_movement = orbit, draw_angle = pi / 2 \<rparr>"

text \<open>A stream of draws that cycles through the five types, and one that is always a plane.\<close>

definition cyclic_draws :: "spawn_draw stream" where
  "cyclic_draws =
     cycle [(Plane, draws_east), (Helicopter, draws_east), (Satellite, draws_east),
            (Meteor, draws_east), (Rare, draws_east)]"

definition plane_draws :: "spawn_draw stream" where
  "plane_draws = sconst (Plane, draws_east)"

section \<open>Properties of update\<close>

lemma update_z_bounds: "0 \<le> z (update sm dz self) \<and> z (update sm dz self) \<le> 100"
  by (simp add: update_def Let_def)

lemma update_trail_length:
  "length (trail self) \<le> 10 \<Longrightarrow> length (trail (update sm dz self)) \<le> 10"
  by (simp add: update_def Let_def)

lemma updates_trail_length:
  "length (trail self) \<le> 10 \<Longrightarrow> length (trail (updates self cs)) \<le> 10"
  by (induction cs arbitrary: self) (simp_all add: update_trail_length)

lemma updates_snoc: "updates self (cs @ [c]) = update (fst c) (snd c) (updates self cs)"
  by (induction cs arbitrary: self) simp_all

lemma updates_z_bounds:
  "cs \<noteq> [] \<Longrightarrow> 0 \<le> z (updates self cs) \<and> z (updates self cs) \<le> 100"
proof (induction cs rule: rev_induct)
  case Nil
  then show ?case by simp
next
  case (snoc c cs)
  show ?case unfolding updates_snoc by (rule update_z_bounds)
qed

text \<open>
  Claim C2. A SkyObject comes from the constructor, with an empty trail. After any
  non-empty sequence of \<^verbatim>\<open>update\<close> calls \<open>c # cs\<close>, whatever the speed multiplier and
  the draw of each call, the depth lies in \<open>[0, 100]\<close> and the trail holds at most ten
  positions.
\<close>

theorem update_depth_and_trail_bounds:
  "0 \<le> z (updates (SkyObject_init oid ty r) (c # cs))
   \<and> z (updates (SkyObject_init oid ty r) (c # cs)) \<le> 100
   \<and> length (trail (updates (SkyObject_init oid ty r) (c # cs))) \<le> 10"
proof -
  have "length (trail (SkyObject_init oid ty r)) \<le> 10"
    by (simp add: SkyObject_init_def)
  then have "length (trail (updates (SkyObject_init oid ty r) (c # cs))) \<le> 10"
    by (rule updates_trail_length)
  moreover have "c # cs \<noteq> []" by simp
  ultimately show ?thesis using updates_z_bounds by blast
qed

text \<open>
  Claim C4. Boundary snap: when the advance takes \<open>x\<close> strictly above \<open>WIDTH\<close> the
  new \<open>x\<close> is exactly \<open>0\<close>, when it takes \<open>x\<close> strictly below \<open>0\<close> the new \<open>x\<close> is
  exactly \<open>WIDTH\<close>, and likewise for \<open>y\<close> against \<open>HEIGHT\<close>, for every position,
  velocity and speed multiplier.
\<close>

theorem update_boundary_snap:
  "(x self + vx self * sm > WIDTH \<longrightarrow> x (update sm dz self) = 0)
   \<and> (x self + vx self * sm < 0 \<longrightarrow> x (update sm dz self) = WIDTH)
   \<and> (y self + vy self * sm > HEIGHT \<longrightarrow> y (update sm dz self) = 0)
   \<and> (y self + vy self * sm < 0 \<longrightarrow> y (update sm dz self) = HEIGHT)"
  by (simp add: update_def Let_def WIDTH_def HEIGHT_def)

theorem update_boundary_snap_witness:
  "x (SkyObject_init 1 Plane draws_east) + vx (SkyObject_init 1 Plane draws_east) * 500 > WIDTH
   \<and> x (update 500 0 (SkyObject_init 1 Plane draws_east)) = 0
   \<and> x (SkyObject_init 1 Plane draws_east) + vx (SkyObject_init 1 Plane draws_east) * (- 10) < 0
   \<and> x (update (- 10) 0 (SkyObject_init 1 Plane draws_east)) = 1000
   \<and> y (SkyObject_init 2 Meteor draws_south) + vy (SkyObject_init 2 Meteor draws_south) * 400 > HEIGHT
   \<and> y (update 400 0 (SkyObject_init 2 Meteor draws_south)) = 0
   \<and> y (SkyObject_init 2 Meteor draws_south) + vy (SkyObject_init 2 Meteor draws_south) * (- 20) < 0
   \<and> y (update (- 20) 0 (SkyObject_init 2 Meteor draws_south)) = 700"
  using update_boundary_snap [of "SkyObject_init 1 Plane draws_east" 500 0]
        update_boundary_snap [of "SkyObject_init 1 Plane draws_east" "- 10" 0]
        update_boundary_snap [of "SkyObject_init 2 Meteor draws_south" 400 0]
        update_boundary_snap [of "SkyObject_init 2 Meteor draws_south" "- 20" 0]
  by (simp add: SkyObject_init_def draws_east_def draws_south_def WIDTH_def HEIGHT_def)

text \<open>
  Claim C10. After every \<^verbatim>\<open>update\<close> call the position lies in the closed canvas:
  \<open>0 \<le> x \<le> WIDTH\<close> and \<open>0 \<le> y \<le> HEIGHT\<close>, for every velocity and speed multiplier.
\<close>

theorem update_position_in_canvas:
  "0 \<le> x (update sm dz self) \<and> x (update sm dz self) \<le> WIDTH
   \<and> 0 \<le> y (update sm dz self) \<and> y (update sm dz self) \<le> HEIGHT"
  by (simp add: update_def Let_def WIDTH_def HEIGHT_def)

text \<open>
  Claim C9. Frame conditions: \<^verbatim>\<open>update\<close> leaves the velocity, the id, the type, the
  base color, the movement behavior (and the scalar speed) as they were; one pass of the
  loop body of \<^verbatim>\<open>main\<close>, which calls \<^verbatim>\<open>update\<close> and then \<^verbatim>\<open>draw\<close>, leaves the
  object exactly as \<^verbatim>\<open>update\<close> alone leaves it, so \<^verbatim>\<open>draw\<close> changes no field.
\<close>

theorem update_draw_frame:
  "vx (update sm dz self) = vx self
   \<and> vy (update sm dz self) = vy self
   \<and> id_obj (update sm dz self) = id_obj self
   \<and> otype (update sm dz self) = otype self
   \<and> base_color (update sm dz self) = base_color self
   \<and> movement (update sm dz self) = movement self
   \<and> speed (update sm dz self) = speed self
   \<and> fst (update_and_draw sm vm dir dz self) = update sm dz self"
  by (simp add: update_def update_and_draw_def Let_def)

section \<open>Properties of draw\<close>

lemma py_int_mono: "a \<le> b \<Longrightarrow> py_int a \<le> py_int b"
proof -
  assume ab: "a \<le> b"
  have fl: "\<lfloor>a\<rfloor> \<le> \<lfloor>b\<rfloor>" and ce: "\<lceil>a\<rceil> \<le> \<lceil>b\<rceil>"
    using ab by (simp_all add: floor_mono ceiling_mono)
  show ?thesis
  proof (cases "0 \<le> a")
    case True
    with ab have "0 \<le> b" by simp
    with True fl show ?thesis by (simp only: py_int_def if_True)
  next
    case False
    then have "\<lceil>a\<rceil> \<le> 0" by (simp add: ceiling_le_iff)
    show ?thesis
    proof (cases "0 \<le> b")
      case True
      then have "0 \<le> \<lfloor>b\<rfloor>" by simp
      with \<open>\<lceil>a\<rceil> \<le> 0\<close> have "\<lceil>a\<rceil> \<le> \<lfloor>b\<rfloor>" by (rule order_trans)
      with False True show ?thesis by (simp only: py_int_def if_True if_False)
    next
      case bneg: False
      with False ce show ?thesis by (simp only: py_int_def if_False)
    qed
  qed
qed

lemma display_channel_mono:
  "f2 \<le> f1 \<Longrightarrow> display_channel f2 c \<le> display_channel f1 c"
  unfolding display_channel_def
  by (intro min.mono order_refl py_int_mono) simp

lemma display_channel_valid:
  assumes "0 \<le> f" "0 \<le> c"
  shows "0 \<le> display_channel f c \<and> display_channel f c \<le> 255"
proof -
  have "0 \<le> real_of_int c + f * 80" using assms by simp
  then have "0 \<le> \<lfloor>real_of_int c + f * 80\<rfloor>" by (simp only: zero_le_floor)
  with \<open>0 \<le> real_of_int c + f * 80\<close> have "0 \<le> py_int (real_of_int c + f * 80)"
    by (simp only: py_int_def if_True)
  then show ?thesis by (simp add: display_channel_def)
qed

lemma catalog_channels: "OBJECT_TYPES_color ty = (r, g, b) \<Longrightarrow> 0 \<le> r \<and> 0 \<le> g \<and> 0 \<le> b"
  by (cases ty) auto

text \<open>
  Claim C8. Color attenuation is monotone in depth: for one object and depths
  \<open>z1 \<le> z2\<close>, every channel of the color drawn at depth \<open>z1\<close> is at least the same
  channel at depth \<open>z2\<close>. When moreover \<open>z2 \<le> 100\<close> and the base color is the color of
  the object's type, as the constructor sets it, every channel lies in \<open>[0, 255]\<close>.
\<close>

theorem color_attenuation_monotone:
  assumes "z1 \<le> z2"
  shows "channels_ge (display_color (self\<lparr> z := z1 \<rparr>)) (display_color (self\<lparr> z := z2 \<rparr>))
         \<and> (z2 \<le> 100 \<and> base_color self = OBJECT_TYPES_color (otype self) \<longrightarrow>
              channels_valid (display_color (self\<lparr> z := z1 \<rparr>))
              \<and> channels_valid (display_color (self\<lparr> z := z2 \<rparr>)))"
proof -
  obtain r g b where rgb: "base_color self = (r, g, b)"
    by (cases "base_color self") auto
  have f: "1 - z2 / 100 \<le> 1 - z1 / 100" using assms by simp
  have ge: "channels_ge (display_color (self\<lparr> z := z1 \<rparr>)) (display_color (self\<lparr> z := z2 \<rparr>))"
    using rgb display_channel_mono [OF f] by (simp add: display_color_def Let_def)
  have valid: "channels_valid (display_color (self\<lparr> z := z1 \<rparr>))
               \<and> channels_valid (display_color (self\<lparr> z := z2 \<rparr>))"
    if "z2 \<le> 100" and "base_color self = OBJECT_TYPES_color (otype self)"
  proof -
    from that(2) rgb have nn: "0 \<le> r" "0 \<le> g" "0 \<le> b"
      using catalog_channels [of "otype self" r g b] by simp_all
    have f1: "0 \<le> 1 - z1 / 100" and f2: "0 \<le> 1 - z2 / 100"
      using assms that(1) by simp_all
    show ?thesis
      using rgb display_channel_valid [OF f1] display_channel_valid [OF f2] nn
      by (simp add: display_color_def Let_def)
  qed
  from ge valid show ?thesis by blast
qed

theorem color_attenuation_monotone_witness:
  "(25::real) \<le> 75 \<and> (75::real) \<le> 100
   \<and> base_color (SkyObject_init 1 Meteor draws_east)
       = OBJECT_TYPES_color (otype (SkyObject_init 1 Meteor draws_east))
   \<and> display_color ((SkyObject_init 1 Meteor draws_east)\<lparr> z := 25 \<rparr>) = (255, 255, 210)
   \<and> display_color ((SkyObject_init 1 Meteor draws_east)\<lparr> z := 75 \<rparr>) = (255, 255, 170)
   \<and> channels_ge (display_color ((SkyObject_init 1 Meteor draws_east)\<lparr> z := 25 \<rparr>))
                  (display_color ((SkyObject_init 1 Meteor draws_east)\<lparr> z := 75 \<rparr>))
   \<and> channels_valid (display_color ((SkyObject_init 1 Meteor draws_east)\<lparr> z := 25 \<rparr>))
   \<and> channels_valid (display_color ((SkyObject_init 1 Meteor draws_east)\<lparr> z := 75 \<rparr>))"
  using color_attenuation_monotone [of 25 75 "SkyObject_init 1 Meteor draws_east"]
  by (simp add: display_color_def SkyObject_init_def draws_east_def display_channel_def py_int_def)

text \<open>
  Claim C7. Ground view mirroring: for a fixed object the horizontal position with
  direction \<open>WEST\<close> is \<open>WIDTH\<close> minus the position with direction \<open>EAST\<close>, and the other
  way round; two clicks on the direction button bring the direction, hence the
  horizontal position, back.
\<close>

theorem ground_mirror:
  "ground_x WEST self = WIDTH - ground_x EAST self
   \<and> ground_x EAST self = WIDTH - ground_x WEST self
   \<and> (collidepoint dir_btn mx my \<longrightarrow>
        DIRECTION (handle_event (handle_event st (MOUSEBUTTONDOWN mx my)) (MOUSEBUTTONDOWN mx my))
          = DIRECTION st
        \<and> ground_x (DIRECTION (handle_event (handle_event st (MOUSEBUTTONDOWN mx my))
                                 (MOUSEBUTTONDOWN mx my))) self
          = ground_x (DIRECTION st) self)"
proof -
  have m: "ground_x WEST self = WIDTH - ground_x EAST self"
    "ground_x EAST self = WIDTH - ground_x WEST self"
    by (simp_all add: ground_x_def)
  have t: "DIRECTION (handle_event (handle_event st (MOUSEBUTTONDOWN mx my)) (MOUSEBUTTONDOWN mx my))
             = DIRECTION st" if "collidepoint dir_btn mx my"
  proof -
    from that have "\<not> collidepoint view_btn mx my"
      by (simp add: dir_btn_def view_btn_def BUTTON_HEIGHT_def)
    with that show ?thesis by (cases "DIRECTION st") simp_all
  qed
  from m t show ?thesis by simp
qed

theorem ground_mirror_witness:
  "collidepoint dir_btn 20 560
   \<and> DIRECTION (handle_event initial_controller (MOUSEBUTTONDOWN 20 560)) = WEST
   \<and> DIRECTION (handle_event (handle_event initial_controller (MOUSEBUTTONDOWN 20 560))
                  (MOUSEBUTTONDOWN 20 560)) = EAST
   \<and> ground_x EAST (SkyObject_init 1 Plane draws_east) = 10
   \<and> ground_x WEST (SkyObject_init 1 Plane draws_east) = 990"
  using ground_mirror [of "SkyObject_init 1 Plane draws_east" 20 560 initial_controller]
  by (simp add: dir_btn_def view_btn_def BUTTON_HEIGHT_def initial_controller_def
      ground_x_def SkyObject_init_def draws_east_def WIDTH_def)

text \<open>
  Claim C3. The claim is that every \<^verbatim>\<open>draw\<close> in plan view passes at least two points
  to the polyline primitive, the first frame included. The code does not: on the first
  frame a freshly constructed object has been updated once, its trail holds exactly one
  point, and \<^verbatim>\<open>draw\<close> passes that trail to \<^verbatim>\<open>pygame.draw.lines\<close>, whose precondition
  then fails. This holds for every object, draw and speed multiplier.
\<close>

theorem first_frame_polyline:
  "snd (update_and_draw sm PLAN dir dz (SkyObject_init oid ty r)) =
     [Circle (display_color (update sm dz (SkyObject_init oid ty r)))
        (py_int (x (update sm dz (SkyObject_init oid ty r))),
         py_int (y (update sm dz (SkyObject_init oid ty r)))) 5,
      Lines (display_color (update sm dz (SkyObject_init oid ty r))) False
        [(draw_x r + cos (draw_angle r) * draw_speed r * sm,
          draw_y r + sin (draw_angle r) * draw_speed r * sm)] 1,
      Blit_label oid (x (update sm dz (SkyObject_init oid ty r)) + 8,
                      y (update sm dz (SkyObject_init oid ty r)) - 8)]
   \<and> length (trail (fst (update_and_draw sm PLAN dir dz (SkyObject_init oid ty r)))) = 1
   \<and> \<not> list_all lines_precondition (snd (update_and_draw sm PLAN dir dz (SkyObject_init oid ty r)))"
  by (simp add: update_and_draw_def draw_def draw_id_def Let_def update_def SkyObject_init_def)

section \<open>Properties of the controller\<close>

text \<open>
  Claim C6. While the slider is being dragged, a pointer motion to \<open>mx\<close> sets the speed
  multiplier to \<open>0.5 + clamp((mx - SLIDER_X) / SLIDER_W, 0, 1) * 2.5\<close>; the value lies
  in \<open>[0.5, 3.0]\<close>, is exactly \<open>0.5\<close> at the left end of the track and exactly \<open>3.0\<close>
  at the right end.
\<close>

theorem slider_drag:
  assumes "dragging_slider st"
  shows "SPEED_MULTIPLIER (handle_event st (MOUSEMOTION mx my)) =
           0.5 + spec_clamp (real_of_int (mx - SLIDER_X) / real_of_int SLIDER_W) 0 1 * 2.5
         \<and> 0.5 \<le> SPEED_MULTIPLIER (handle_event st (MOUSEMOTION mx my))
         \<and> SPEED_MULTIPLIER (handle_event st (MOUSEMOTION mx my)) \<le> 3.0
         \<and> SPEED_MULTIPLIER (handle_event st (MOUSEMOTION SLIDER_X my)) = 0.5
         \<and> SPEED_MULTIPLIER (handle_event st (MOUSEMOTION (SLIDER_X + SLIDER_W) my)) = 3.0"
proof -
  define q where "q = real_of_int (mx - SLIDER_X) / real_of_int SLIDER_W"
  have cl: "max 0 (min 1 q) = spec_clamp q 0 1"
    by (simp add: spec_clamp_def max_def min_def)
  have lo: "0 \<le> spec_clamp q 0 1" and hi: "spec_clamp q 0 1 \<le> 1"
    by (simp_all add: spec_clamp_def)
  have eq: "SPEED_MULTIPLIER (handle_event st (MOUSEMOTION mx my)) = 0.5 + spec_clamp q 0 1 * 2.5"
    using assms cl by (simp add: Let_def q_def)
  have left: "SPEED_MULTIPLIER (handle_event st (MOUSEMOTION SLIDER_X my)) = 0.5"
    using assms by (simp add: Let_def)
  have right: "SPEED_MULTIPLIER (handle_event st (MOUSEMOTION (SLIDER_X + SLIDER_W) my)) = 3.0"
    using assms by (simp add: Let_def SLIDER_W_def)
  from lo hi have "0.5 \<le> 0.5 + spec_clamp q 0 1 * 2.5" "0.5 + spec_clamp q 0 1 * 2.5 \<le> 3.0"
    by simp_all
  with eq left right show ?thesis unfolding q_def by simp
qed

theorem slider_drag_witness:
  "dragging_slider (initial_controller\<lparr> dragging_slider := True \<rparr>)
   \<and> SPEED_MULTIPLIER (handle_event (initial_controller\<lparr> dragging_slider := True \<rparr>)
        (MOUSEMOTION 500 625)) = 1.75
   \<and> SPEED_MULTIPLIER (handle_event (initial_controller\<lparr> dragging_slider := True \<rparr>)
        (MOUSEMOTION 200 625)) = 0.5
   \<and> SPEED_MULTIPLIER (handle_event (initial_controller\<lparr> dragging_slider := True \<rparr>)
        (MOUSEMOTION 800 625)) = 3
   \<and> SPEED_MULTIPLIER (handle_event (initial_controller\<lparr> dragging_slider := True \<rparr>)
        (MOUSEMOTION 950 625)) = 3
   \<and> SPEED_MULTIPLIER (handle_event (initial_controller\<lparr> dragging_slider := True \<rparr>)
        (MOUSEMOTION 50 625)) = 0.5"
  using slider_drag [of "initial_controller\<lparr> dragging_slider := True \<rparr>" 500 625]
        slider_drag [of "initial_controller\<lparr> dragging_slider := True \<rparr>" 950 625]
        slider_drag [of "initial_controller\<lparr> dragging_slider := True \<rparr>" 50 625]
  by (simp add: initial_controller_def spec_clamp_def SLIDER_X_def SLIDER_W_def)

section \<open>Properties of the spawner\<close>

lemma count_type_append:
  "count_type ty (objs @ [ob]) = count_type ty objs + (if otype ob = ty then 1 else 0)"
  by (simp add: count_type_def)

lemma length_by_type:
  "length objs = count_type Plane objs + count_type Helicopter objs + count_type Satellite objs
                 + count_type Meteor objs + count_type Rare objs"
proof (induction objs)
  case Nil
  then show ?case by (simp add: count_type_def)
next
  case (Cons ob objs)
  then show ?case by (cases "otype ob") (simp_all add: count_type_def)
qed

lemma spawn_inv_init: "spawn_inv c [] 1 (\<lambda>k. 0)"
  by (simp add: spawn_inv_def count_type_def)

lemma upto_snoc: "0 \<le> n \<Longrightarrow> [1 .. n + 1] = [1 .. n] @ [n + 1]"
  by (simp add: upto_rec2)

text \<open>An accepted draw keeps the invariant.\<close>

lemma spawn_inv_step:
  assumes "spawn_inv c objs oid counts" and "counts ty < c"
  shows "spawn_inv c (objs @ [SkyObject_init oid ty r]) (oid + 1) (counts (ty := counts ty + 1))"
proof -
  have ot: "otype (SkyObject_init oid ty r) = ty" and io: "id_obj (SkyObject_init oid ty r) = oid"
    by (simp_all add: SkyObject_init_def)
  from assms(1) have a: "oid = int (length objs) + 1" "map id_obj objs = [1 .. int (length objs)]"
    "\<And>t. counts t = int (count_type t objs)"
    "\<And>t. 0 < count_type t objs \<Longrightarrow> int (count_type t objs) \<le> c"
    by (simp_all add: spawn_inv_def)
  have 1: "oid + 1 = int (length (objs @ [SkyObject_init oid ty r])) + 1"
    using a(1) by simp
  have 2: "map id_obj (objs @ [SkyObject_init oid ty r]) = [1 .. int (length (objs @ [SkyObject_init oid ty r]))]"
    using a(1,2) io upto_snoc [of "int (length objs)"] by (simp add: add.commute)
  have 3: "(counts (ty := counts ty + 1)) t = int (count_type t (objs @ [SkyObject_init oid ty r]))" for t
    using a(3) ot by (simp add: count_type_append)
  have 4: "int (count_type t (objs @ [SkyObject_init oid ty r])) \<le> c"
    if "0 < count_type t (objs @ [SkyObject_init oid ty r])" for t
  proof (cases "t = ty")
    case True
    then show ?thesis using assms(2) a(3) [of ty] ot by (simp add: count_type_append)
  next
    case False
    then show ?thesis using that a(4) [of t] ot by (simp add: count_type_append)
  qed
  show ?thesis unfolding spawn_inv_def using 1 2 3 4 by blast
qed

text \<open>What the loop returns, if it returns: partial correctness, for every stream of draws.\<close>

lemma spawn_loop_result:
  assumes "spawn_loop t c objs oid counts rs = Some res" and "spawn_inv c objs oid counts"
  shows "(\<exists>oid' counts'. spawn_inv c res oid' counts')
         \<and> \<not> int (length res) < t
         \<and> int (length res) \<le> max t (int (length objs))"
proof -
  have "spawn_inv c objs oid counts \<longrightarrow>
          (\<exists>oid' counts'. spawn_inv c res oid' counts')
          \<and> \<not> int (length res) < t
          \<and> int (length res) \<le> max t (int (length objs))"
  proof (rule spawn_loop.raw_induct
      [where P = "\<lambda>t c objs oid counts rs res. spawn_inv c objs oid counts \<longrightarrow>
          (\<exists>oid' counts'. spawn_inv c res oid' counts')
          \<and> \<not> int (length res) < t
          \<and> int (length res) \<le> max t (int (length objs))", OF _ assms(1)], goal_cases)
    case (1 f t c objs oid counts rs res)
    show ?case
    proof
      assume inv: "spawn_inv c objs oid counts"
      show "(\<exists>oid' counts'. spawn_inv c res oid' counts')
          \<and> \<not> int (length res) < t
          \<and> int (length res) \<le> max t (int (length objs))"
      proof (cases "int (length objs) < t")
        case False
        with 1(2) have "res = objs" by simp
        with False inv show ?thesis by auto
      next
        case True
        note lt = this
        show ?thesis
        proof (cases "counts (fst (shd rs)) < c")
          case True
          with lt 1(2) have call: "f t c (objs @ [SkyObject_init oid (fst (shd rs)) (snd (shd rs))])
                   (oid + 1) (counts (fst (shd rs) := counts (fst (shd rs)) + 1)) (stl rs) = Some res"
            by simp
          have "spawn_inv c (objs @ [SkyObject_init oid (fst (shd rs)) (snd (shd rs))])
                   (oid + 1) (counts (fst (shd rs) := counts (fst (shd rs)) + 1))"
            using inv True by (rule spawn_inv_step)
          with 1(1) [OF call] lt show ?thesis by auto
        next
          case False
          with lt 1(2) have call: "f t c objs oid counts (stl rs) = Some res" by simp
          from 1(1) [OF call] inv show ?thesis by blast
        qed
      qed
    qed
  qed
  with assms(2) show ?thesis by blast
qed








text \<open>The loop never exits when the request is unsatisfiable.\<close>

lemma spawn_loop_unsatisfiable:
  assumes "0 < t" and "5 * c < t" and "spawn_inv c objs oid counts"
  shows "spawn_loop t c objs oid counts rs = None"
proof (rule ccontr)
  assume "spawn_loop t c objs oid counts rs \<noteq> None"
  then obtain res where res: "spawn_loop t c objs oid counts rs = Some res" by blast
  from spawn_loop_result [OF res assms(3)] obtain oid' counts'
    where inv: "spawn_inv c res oid' counts'" and len: "\<not> int (length res) < t"
    by blast
  from inv have cap: "\<And>ty. 0 < count_type ty res \<Longrightarrow> int (count_type ty res) \<le> c"
    by (simp add: spawn_inv_def)
  have b: "int (count_type ty res) \<le> max 0 c" for ty
    using cap [of ty] by (cases "0 < count_type ty res") simp_all
  have "int (length res) = int (count_type Plane res) + int (count_type Helicopter res)
          + int (count_type Satellite res) + int (count_type Meteor res) + int (count_type Rare res)"
    by (subst length_by_type) simp
  with b [of Plane] b [of Helicopter] b [of Satellite] b [of Meteor] b [of Rare]
  have "int (length res) \<le> 5 * max 0 c" by linarith
  with len assms(1,2) show False by (simp add: max_def split: if_splits)
qed



lemma plane_draws_unfold: "shd plane_draws = (Plane, draws_east)" "stl plane_draws = plane_draws"
  by (simp_all add: plane_draws_def)

lemma plane_draws_snth: "plane_draws !! n = (Plane, draws_east)"
  by (induction n) (simp_all add: plane_draws_unfold)


lemma not_recurring_plane_draws: "\<not> recurring plane_draws"
proof
  assume "recurring plane_draws"
  then obtain m where "fst (plane_draws !! m) = Helicopter"
    unfolding recurring_def by blast
  then show False by (simp add: plane_draws_snth)
qed




text \<open>
  Claim C1, as the code has it. The claim is that an unsatisfiable request ends with a
  configuration error. The code has no such error: for a request of at least one object
  with \<open>5 * max_per_type < max_objects\<close>, the loop of \<^verbatim>\<open>spawn_objects\<close> never exits,
  whatever the draws.
\<close>

theorem spawn_objects_unsatisfiable:
  assumes "0 < t" and "5 * c < t"
  shows "spawn_objects t c rs = None"
  unfolding spawn_objects_def using assms spawn_inv_init by (rule spawn_loop_unsatisfiable)

theorem spawn_objects_unsatisfiable_witness:
  "(0::int) < 6 \<and> 5 * (1::int) < 6 \<and> spawn_objects 6 1 cyclic_draws = None"
  using spawn_objects_unsatisfiable [of 6 1 cyclic_draws] by simp

text \<open>
  A request for 21 objects with the cap of the source, 4 per type, on the draws that are
  always a plane: the call neither returns nor signals an error.
\<close>

theorem spawn_objects_hangs:
  "spawn_objects 21 MAX_PER_TYPE plane_draws = None"
proof -
  have "(0::int) < 21" and "5 * MAX_PER_TYPE < 21" by (simp_all add: MAX_PER_TYPE_def)
  then have "spawn_loop 21 MAX_PER_TYPE [] 1 (\<lambda>k. 0) plane_draws = None"
    using spawn_inv_init by (rule spawn_loop_unsatisfiable)
  then show ?thesis by (simp only: spawn_objects_def)
qed




text \<open>
  A run with the constants of the source on draws that start with six planes: the fifth
  and sixth plane are rejected by the cap, the ids stay consecutive.
\<close>

lemma spawn_objects_run:
  "map_option (map (\<lambda>ob. (id_obj ob, otype ob)))
     (spawn_objects 7 4
        ([(Plane, draws_east), (Plane, draws_east), (Plane, draws_east), (Plane, draws_east), (Plane, draws_east), (Plane, draws_east),
          (Rare, draws_east), (Meteor, draws_east), (Plane, draws_east), (Rare, draws_east)] @- plane_draws))
   = Some [(1, Plane), (2, Plane), (3, Plane), (4, Plane), (5, Rare), (6, Meteor), (7, Rare)]"
  by (simp add: spawn_objects_def spawn_loop.simps SkyObject_init_def)


end
